theory Spec2Isabelle
  imports Complex_Main
begin

section \<open>Data model of \<open>dynamics365_client/main.py\<close>\<close>

text \<open>
  Python values that cross the client's boundary: request payloads and the result of
  \<open>response.json()\<close>. A Python \<open>dict\<close> is an association list in insertion order
  with pairwise distinct keys; \<open>dict_get\<close> and \<open>dict_set\<close> below read and write
  it the way \<open>dict.get\<close> and \<open>dict.update\<close> do.
\<close>

datatype json =
    JNull
  | JBool bool
  | JInt int
  | JFloat real
  | JStr string
  | JList "json list"
  | JDict "(string \<times> json) list"

text \<open>
  The exceptions a call can end with. \<open>AttributeError\<close> is Python's own (a method
  looked up on an object that has none of that name); \<open>HTTPError\<close> is what
  \<open>raise_for_status\<close> raises and carries the response; the other two stand for
  whatever the two collaborators (authentication library, HTTP transport) raise themselves.
\<close>

record response =
  status_code :: nat
  json_body :: "json option"

datatype error =
    AttributeError
  | HTTPError response
  | AuthError string
  | TransportError string

text \<open>The fields \<open>__init__\<close> stores, with the optionality of its signature.\<close>

record config =
  environment_url :: string
  access_token :: "string option"
  client_id :: "string option"
  client_secret :: "string option"
  tenant_id :: "string option"
  email :: "string option"
  password :: "string option"
  disable_token_refresh :: "bool option"

text \<open>
  The arguments \<open>fast_azure_client.AuthClient\<close> is constructed with. Construction is
  taken to store them only; the network is touched by the two methods of the client.
\<close>

record auth_client =
  ac_client_id :: "string option"
  ac_client_secret :: "string option"
  ac_tenant_id :: "string option"
  ac_scopes :: "string list"
  ac_mode :: string
  ac_authority :: string

type_synonym headers = "(string \<times> string option) list"

text \<open>
  What is handed to \<open>requests\<close>: \<open>requests.get(url, headers=h)\<close> is
  \<open>requests.request("get", url, headers=h)\<close>, so one record covers both call sites;
  \<open>rq_json = None\<close> is the absence of the \<open>json=\<close> argument (or \<open>json=None\<close>),
  for which \<open>requests\<close> sends no body.
\<close>

record http_request =
  rq_method :: string
  rq_url :: string
  rq_json :: "json option"
  rq_headers :: headers

text \<open>
  The two collaborators, as functions of what they are called with. A \<open>response\<close>
  holds the status and what \<open>response.json()\<close> yields: \<open>None\<close> when the body is
  empty or not JSON (\<open>JSONDecodeError\<close>).
\<close>

record env =
  authenticate_email_password :: "auth_client \<Rightarrow> string option \<Rightarrow> string option \<Rightarrow> error + string"
  generate_auth_url :: "auth_client \<Rightarrow> error + string"
  requests_request :: "http_request \<Rightarrow> error + response"

text \<open>
  The trace of a call: every entry into \<open>_make_request\<close> with its four arguments, and
  every call that leaves the process.
\<close>

datatype event =
    MakeRequest string string "json option" "headers option"
  | AuthUrl auth_client
  | Authenticate auth_client "string option" "string option"
  | Http http_request

type_synonym 'a outcome = "(error + 'a) \<times> event list"

section \<open>Python's truthiness and \<open>dict\<close> operations\<close>

fun truthy_str :: "string option \<Rightarrow> bool" where
  "truthy_str None = False"
| "truthy_str (Some s) = (s \<noteq> [])"

fun truthy_flag :: "bool option \<Rightarrow> bool" where
  "truthy_flag None = False"
| "truthy_flag (Some b) = b"

text \<open>How an f-string renders an optional string: \<open>None\<close> prints as \<open>None\<close>.\<close>

fun format_str :: "string option \<Rightarrow> string" where
  "format_str None = ''None''"
| "format_str (Some s) = s"

fun dict_get :: "('k \<times> 'v) list \<Rightarrow> 'k \<Rightarrow> 'v \<Rightarrow> 'v" where
  "dict_get [] k d = d"
| "dict_get ((k', v) # kvs) k d = (if k' = k then v else dict_get kvs k d)"

fun dict_set :: "('k \<times> 'v) list \<Rightarrow> 'k \<Rightarrow> 'v \<Rightarrow> ('k \<times> 'v) list" where
  "dict_set [] k v = [(k, v)]"
| "dict_set ((k', v') # kvs) k v =
     (if k' = k then (k, v) # kvs else (k', v') # dict_set kvs k v)"

section \<open>The client\<close>

text \<open>\<open>_generate_base_url\<close>: the f-string \<open>"{environment_url}api/data/v9.0/{item}"\<close>.\<close>

definition generate_base_url :: "config \<Rightarrow> string \<Rightarrow> string" where
  "generate_base_url cfg item = environment_url cfg @ ''api/data/v9.0/'' @ item"

definition new_auth_client :: "config \<Rightarrow> auth_client" where
  "new_auth_client cfg =
     \<lparr> ac_client_id = client_id cfg,
       ac_client_secret = client_secret cfg,
       ac_tenant_id = tenant_id cfg,
       ac_scopes = [environment_url cfg @ ''user_impersonation''],
       ac_mode = ''b2c'',
       ac_authority = ''https://login.microsoftonline.com/organizations'' \<rparr>"

text \<open>\<open>_generate_user_token\<close>.\<close>

definition generate_user_token :: "env \<Rightarrow> config \<Rightarrow> bool \<Rightarrow> event list \<Rightarrow> string outcome" where
  "generate_user_token e cfg return_auth_url tr =
     (let client = new_auth_client cfg in
      if return_auth_url
      then (generate_auth_url e client, tr @ [AuthUrl client])
      else (authenticate_email_password e client (email cfg) (password cfg),
            tr @ [Authenticate client (email cfg) (password cfg)]))"

text \<open>
  \<open>Response.raise_for_status\<close> of the \<open>requests\<close> library: an \<open>HTTPError\<close> for a
  status from 400 to 599, nothing otherwise.
\<close>

definition raise_for_status :: "response \<Rightarrow> error option" where
  "raise_for_status r =
     (if 400 \<le> status_code r \<and> status_code r < 600 then Some (HTTPError r) else None)"

text \<open>
  The last statement of \<open>_make_request\<close>, \<open>json_response.get("value", json_response)\<close>:
  only a \<open>dict\<close> has a \<open>get\<close>.
\<close>

fun unwrap_value :: "json \<Rightarrow> error + json" where
  "unwrap_value (JDict kvs) = Inr (dict_get kvs ''value'' (JDict kvs))"
| "unwrap_value j = Inl AttributeError"

text \<open>
  \<open>_make_request\<close>, statement by statement. \<open>headers\<close> defaults to \<open>None\<close>, and
  \<open>None\<close> has no \<open>update\<close>.
\<close>

definition make_request ::
  "env \<Rightarrow> config \<Rightarrow> string \<Rightarrow> string \<Rightarrow> json option \<Rightarrow> headers option \<Rightarrow> event list \<Rightarrow> json outcome"
where
  "make_request e cfg path method payload hdrs tr0 =
     (let tr = tr0 @ [MakeRequest path method payload hdrs];
          (tok, tr1) =
            (if \<not> truthy_flag (disable_token_refresh cfg)
             then (case generate_user_token e cfg False tr of
                     (Inl err, t) \<Rightarrow> (Inl err, t)
                   | (Inr s, t) \<Rightarrow> (Inr (Some s), t))
             else (Inr (access_token cfg), tr))
      in (case tok of
            Inl err \<Rightarrow> (Inl err, tr1)
          | Inr token \<Rightarrow>
              (case hdrs of
                 None \<Rightarrow> (Inl AttributeError, tr1)
               | Some h \<Rightarrow>
                   (let h' = dict_set h ''Authorization'' token;
                        url = generate_base_url cfg path;
                        rq = (if method = ''get''
                              then \<lparr> rq_method = ''get'', rq_url = url,
                                     rq_json = None, rq_headers = h' \<rparr>
                              else \<lparr> rq_method = method, rq_url = url,
                                     rq_json = payload, rq_headers = h' \<rparr>);
                        tr2 = tr1 @ [Http rq]
                    in (case requests_request e rq of
                          Inl err \<Rightarrow> (Inl err, tr2)
                        | Inr resp \<Rightarrow>
                            (case raise_for_status resp of
                               Some err \<Rightarrow> (Inl err, tr2)
                             | None \<Rightarrow>
                                 (let json_response =
                                        (case json_body resp of
                                           Some j \<Rightarrow> j
                                         | None \<Rightarrow> JDict [(''value'', JStr ''request successful'')])
                                  in (unwrap_value json_response, tr2))))))))"

text \<open>
  A payload as \<open>_make_request\<close> receives it: \<open>create\<close> and \<open>update\<close> forward
  their argument unchanged, so Python's \<open>None\<close> arrives as the absent payload.
\<close>

fun forwarded :: "json \<Rightarrow> json option" where
  "forwarded JNull = None"
| "forwarded j = Some j"

text \<open>The four public methods.\<close>

definition get :: "env \<Rightarrow> config \<Rightarrow> string \<Rightarrow> string option \<Rightarrow> event list \<Rightarrow> json outcome" where
  "get e cfg item item_id tr =
     (let item' = (if truthy_str item_id then item @ ''('' @ format_str item_id @ '')'' else item)
      in make_request e cfg item' ''get'' None None tr)"

definition create :: "env \<Rightarrow> config \<Rightarrow> string \<Rightarrow> json \<Rightarrow> event list \<Rightarrow> json outcome" where
  "create e cfg item payload tr = make_request e cfg item ''post'' (forwarded payload) None tr"

definition update :: "env \<Rightarrow> config \<Rightarrow> string \<Rightarrow> string \<Rightarrow> json \<Rightarrow> event list \<Rightarrow> json outcome" where
  "update e cfg item item_id payload tr =
     make_request e cfg (item @ ''('' @ item_id @ '')'') ''patch'' (forwarded payload) None tr"

definition delete :: "env \<Rightarrow> config \<Rightarrow> string \<Rightarrow> string \<Rightarrow> event list \<Rightarrow> json outcome" where
  "delete e cfg item item_id tr =
     make_request e cfg (item @ ''('' @ item_id @ '')'') ''delete'' None None tr"

text \<open>A call of any of the four, for statements about "every operation".\<close>

datatype operation =
    Get string "string option"
  | Create string json
  | Update string string json
  | Delete string string

fun call :: "env \<Rightarrow> config \<Rightarrow> operation \<Rightarrow> event list \<Rightarrow> json outcome" where
  "call e cfg (Get item item_id) tr = get e cfg item item_id tr"
| "call e cfg (Create item payload) tr = create e cfg item payload tr"
| "call e cfg (Update item item_id payload) tr = update e cfg item item_id payload tr"
| "call e cfg (Delete item item_id) tr = delete e cfg item item_id tr"

text \<open>Projections of a trace.\<close>

fun http_requests :: "event list \<Rightarrow> http_request list" where
  "http_requests [] = []"
| "http_requests (Http rq # es) = rq # http_requests es"
| "http_requests (_ # es) = http_requests es"

fun auth_calls :: "event list \<Rightarrow> event list" where
  "auth_calls [] = []"
| "auth_calls (Authenticate c em pw # es) = Authenticate c em pw # auth_calls es"
| "auth_calls (AuthUrl c # es) = AuthUrl c # auth_calls es"
| "auth_calls (_ # es) = auth_calls es"

fun dispatches :: "event list \<Rightarrow> event list" where
  "dispatches [] = []"
| "dispatches (MakeRequest p m pl h # es) = MakeRequest p m pl h # dispatches es"
| "dispatches (_ # es) = dispatches es"

section \<open>Concrete configurations and collaborators\<close>

text \<open>
  A client with a static token and refresh disabled, a client that authenticates on every
  call, collaborators that answer every request the same way, and collaborators whose
  authentication provider raises.
\<close>

definition example_config_static :: config where
  "example_config_static =
     \<lparr> environment_url = ''https://org.crm.dynamics.com/'',
       access_token = Some ''tok'',
       client_id = None, client_secret = None, tenant_id = None,
       email = None, password = None,
       disable_token_refresh = Some True \<rparr>"

definition example_config_refresh :: config where
  "example_config_refresh =
     \<lparr> environment_url = ''https://org.crm.dynamics.com/'',
       access_token = None,
       client_id = Some ''app'', client_secret = Some ''secret'', tenant_id = Some ''tenant'',
       email = Some ''user@example.com'', password = Some ''pw'',
       disable_token_refresh = Some False \<rparr>"

definition env_answering :: "response \<Rightarrow> env" where
  "env_answering resp =
     \<lparr> authenticate_email_password = (\<lambda>c em pw. Inr ''fresh''),
       generate_auth_url = (\<lambda>c. Inr ''https://login.microsoftonline.com/consent''),
       requests_request = (\<lambda>rq. Inr resp) \<rparr>"

definition env_auth_failing :: env where
  "env_auth_failing =
     \<lparr> authenticate_email_password = (\<lambda>c em pw. Inl (AuthError ''invalid credentials'')),
       generate_auth_url = (\<lambda>c. Inr ''https://login.microsoftonline.com/consent''),
       requests_request = (\<lambda>rq. Inr \<lparr> status_code = 200, json_body = None \<rparr>) \<rparr>"

definition resp_no_content :: response where
  "resp_no_content = \<lparr> status_code = 204, json_body = None \<rparr>"

definition resp_value :: response where
  "resp_value =
     \<lparr> status_code = 200,
       json_body = Some (JDict [(''value'', JList [JDict [(''name'', JStr ''Contoso'')]])]) \<rparr>"

definition resp_not_found :: response where
  "resp_not_found = \<lparr> status_code = 404, json_body = None \<rparr>"

definition resp_not_modified :: response where
  "resp_not_modified = \<lparr> status_code = 304, json_body = None \<rparr>"

section \<open>Traces and the dispatcher\<close>

lemma http_requests_append: "http_requests (a @ b) = http_requests a @ http_requests b"
  by (induction a rule: http_requests.induct) simp_all

lemma auth_calls_append: "auth_calls (a @ b) = auth_calls a @ auth_calls b"
  by (induction a rule: auth_calls.induct) simp_all

lemma dispatches_append: "dispatches (a @ b) = dispatches a @ dispatches b"
  by (induction a rule: dispatches.induct) simp_all

lemma dict_get_set: "dict_get (dict_set h k v) k d = v"
  by (induction h k v rule: dict_set.induct) simp_all

text \<open>
  \<open>_make_request\<close> along each way token resolution can go: a static token, a fresh
  token, a failed authentication; and without a headers dict.
\<close>

lemma make_request_static:
  assumes "truthy_flag (disable_token_refresh cfg)"
  shows "make_request e cfg p m pl (Some h) tr =
     (let h' = dict_set h ''Authorization'' (access_token cfg);
          url = generate_base_url cfg p;
          rq = (if m = ''get''
                then \<lparr> rq_method = ''get'', rq_url = url, rq_json = None, rq_headers = h' \<rparr>
                else \<lparr> rq_method = m, rq_url = url, rq_json = pl, rq_headers = h' \<rparr>);
          tr2 = tr @ [MakeRequest p m pl (Some h), Http rq]
      in (case requests_request e rq of
            Inl err \<Rightarrow> (Inl err, tr2)
          | Inr resp \<Rightarrow>
              (case raise_for_status resp of
                 Some err \<Rightarrow> (Inl err, tr2)
               | None \<Rightarrow>
                   (unwrap_value (case json_body resp of Some j \<Rightarrow> j
                        | None \<Rightarrow> JDict [(''value'', JStr ''request successful'')]), tr2))))"
  using assms by (simp add: make_request_def Let_def split: sum.splits option.splits)

lemma make_request_fresh:
  assumes "\<not> truthy_flag (disable_token_refresh cfg)"
      and "authenticate_email_password e (new_auth_client cfg) (email cfg) (password cfg) = Inr s"
  shows "make_request e cfg p m pl (Some h) tr =
     (let h' = dict_set h ''Authorization'' (Some s);
          url = generate_base_url cfg p;
          rq = (if m = ''get''
                then \<lparr> rq_method = ''get'', rq_url = url, rq_json = None, rq_headers = h' \<rparr>
                else \<lparr> rq_method = m, rq_url = url, rq_json = pl, rq_headers = h' \<rparr>);
          tr2 = tr @ [MakeRequest p m pl (Some h),
                      Authenticate (new_auth_client cfg) (email cfg) (password cfg), Http rq]
      in (case requests_request e rq of
            Inl err \<Rightarrow> (Inl err, tr2)
          | Inr resp \<Rightarrow>
              (case raise_for_status resp of
                 Some err \<Rightarrow> (Inl err, tr2)
               | None \<Rightarrow>
                   (unwrap_value (case json_body resp of Some j \<Rightarrow> j
                        | None \<Rightarrow> JDict [(''value'', JStr ''request successful'')]), tr2))))"
  using assms by (simp add: make_request_def generate_user_token_def Let_def split: sum.splits option.splits)

lemma make_request_auth_failed:
  assumes "\<not> truthy_flag (disable_token_refresh cfg)"
      and "authenticate_email_password e (new_auth_client cfg) (email cfg) (password cfg) = Inl err"
  shows "make_request e cfg p m pl hdrs tr =
     (Inl err, tr @ [MakeRequest p m pl hdrs,
                     Authenticate (new_auth_client cfg) (email cfg) (password cfg)])"
  using assms by (simp add: make_request_def generate_user_token_def Let_def)

lemma make_request_no_headers:
  "make_request e cfg p m pl None tr =
     (if truthy_flag (disable_token_refresh cfg)
      then (Inl AttributeError, tr @ [MakeRequest p m pl None])
      else (case authenticate_email_password e (new_auth_client cfg) (email cfg) (password cfg) of
              Inl err \<Rightarrow> Inl err
            | Inr s \<Rightarrow> Inl AttributeError,
            tr @ [MakeRequest p m pl None,
                  Authenticate (new_auth_client cfg) (email cfg) (password cfg)]))"
  by (simp add: make_request_def generate_user_token_def Let_def split: sum.splits)

lemma static_trace:
  assumes "truthy_flag (disable_token_refresh cfg)"
  shows "snd (make_request e cfg p m pl (Some h) tr) =
     tr @ [MakeRequest p m pl (Some h),
           Http (if m = ''get''
                 then \<lparr> rq_method = ''get'', rq_url = generate_base_url cfg p, rq_json = None,
                        rq_headers = dict_set h ''Authorization'' (access_token cfg) \<rparr>
                 else \<lparr> rq_method = m, rq_url = generate_base_url cfg p, rq_json = pl,
                        rq_headers = dict_set h ''Authorization'' (access_token cfg) \<rparr>)]"
  by (simp add: make_request_static [OF assms] Let_def split: sum.splits option.splits)

lemma fresh_trace:
  assumes "\<not> truthy_flag (disable_token_refresh cfg)"
      and "authenticate_email_password e (new_auth_client cfg) (email cfg) (password cfg) = Inr s"
  shows "snd (make_request e cfg p m pl (Some h) tr) =
     tr @ [MakeRequest p m pl (Some h),
           Authenticate (new_auth_client cfg) (email cfg) (password cfg),
           Http (if m = ''get''
                 then \<lparr> rq_method = ''get'', rq_url = generate_base_url cfg p, rq_json = None,
                        rq_headers = dict_set h ''Authorization'' (Some s) \<rparr>
                 else \<lparr> rq_method = m, rq_url = generate_base_url cfg p, rq_json = pl,
                        rq_headers = dict_set h ''Authorization'' (Some s) \<rparr>)]"
  by (simp add: make_request_fresh [OF assms] Let_def split: sum.splits option.splits)

text \<open>
  A call sends at most one request, and only when it was given a headers dict; once it
  has sent the request \<open>rq\<close>, its result is decided by the answer to \<open>rq\<close> alone.
\<close>

lemma sent_requests:
  "http_requests (snd (make_request e cfg p m pl hdrs tr)) = http_requests tr
   \<or> (\<exists>h tok. hdrs = Some h \<and>
         http_requests (snd (make_request e cfg p m pl hdrs tr)) =
           http_requests tr @
           [if m = ''get''
            then \<lparr> rq_method = ''get'', rq_url = generate_base_url cfg p, rq_json = None,
                   rq_headers = dict_set h ''Authorization'' tok \<rparr>
            else \<lparr> rq_method = m, rq_url = generate_base_url cfg p, rq_json = pl,
                   rq_headers = dict_set h ''Authorization'' tok \<rparr>])"
proof (cases hdrs)
  case None
  then show ?thesis by (simp add: make_request_no_headers http_requests_append)
next
  case (Some h)
  show ?thesis
  proof (cases "truthy_flag (disable_token_refresh cfg)")
    case True
    show ?thesis unfolding Some
      by (rule disjI2, rule exI [of _ h], rule exI [of _ "access_token cfg"])
         (simp add: static_trace [OF True] http_requests_append)
  next
    case False
    show ?thesis
    proof (cases "authenticate_email_password e (new_auth_client cfg) (email cfg) (password cfg)")
      case (Inl err)
      show ?thesis
        by (simp add: make_request_auth_failed [OF False Inl] http_requests_append)
    next
      case (Inr s)
      show ?thesis unfolding Some
        by (rule disjI2, rule exI [of _ h], rule exI [of _ "Some s"])
           (simp add: fresh_trace [OF False Inr] http_requests_append)
    qed
  qed
qed

lemma resolved_sends_one:
  assumes "truthy_flag (disable_token_refresh cfg)
           \<or> (\<exists>s. authenticate_email_password e (new_auth_client cfg) (email cfg) (password cfg) = Inr s)"
  shows "\<exists>rq. http_requests (snd (make_request e cfg p m pl (Some h) tr)) = http_requests tr @ [rq]"
proof (cases "truthy_flag (disable_token_refresh cfg)")
  case True
  show ?thesis by (simp add: static_trace [OF True] http_requests_append)
next
  case False
  with assms obtain s where
    s: "authenticate_email_password e (new_auth_client cfg) (email cfg) (password cfg) = Inr s"
    by blast
  show ?thesis by (simp add: fresh_trace [OF False s] http_requests_append)
qed

lemma result_of_sent_request:
  assumes sent: "http_requests (snd (make_request e cfg p m pl (Some h) tr)) = http_requests tr @ [rq]"
  shows "fst (make_request e cfg p m pl (Some h) tr) =
     (case requests_request e rq of
        Inl err \<Rightarrow> Inl err
      | Inr resp \<Rightarrow>
          (case raise_for_status resp of
             Some err \<Rightarrow> Inl err
           | None \<Rightarrow>
               unwrap_value (case json_body resp of Some j \<Rightarrow> j
                    | None \<Rightarrow> JDict [(''value'', JStr ''request successful'')])))"
proof (cases "truthy_flag (disable_token_refresh cfg)")
  case True
  from sent have "rq = (if m = ''get''
                 then \<lparr> rq_method = ''get'', rq_url = generate_base_url cfg p, rq_json = None,
                        rq_headers = dict_set h ''Authorization'' (access_token cfg) \<rparr>
                 else \<lparr> rq_method = m, rq_url = generate_base_url cfg p, rq_json = pl,
                        rq_headers = dict_set h ''Authorization'' (access_token cfg) \<rparr>)"
    by (simp add: static_trace [OF True] http_requests_append)
  then show ?thesis
    by (simp add: make_request_static [OF True] Let_def split: sum.splits option.splits)
next
  case False
  show ?thesis
  proof (cases "authenticate_email_password e (new_auth_client cfg) (email cfg) (password cfg)")
    case (Inl err)
    from sent show ?thesis
      by (simp add: make_request_auth_failed [OF False Inl] http_requests_append)
  next
    case (Inr s)
    from sent have "rq = (if m = ''get''
                 then \<lparr> rq_method = ''get'', rq_url = generate_base_url cfg p, rq_json = None,
                        rq_headers = dict_set h ''Authorization'' (Some s) \<rparr>
                 else \<lparr> rq_method = m, rq_url = generate_base_url cfg p, rq_json = pl,
                        rq_headers = dict_set h ''Authorization'' (Some s) \<rparr>)"
      by (simp add: fresh_trace [OF False Inr] http_requests_append)
    then show ?thesis
      by (simp add: make_request_fresh [OF False Inr] Let_def split: sum.splits option.splits)
  qed
qed

text \<open>
  Each public method is \<open>_make_request\<close> without the \<open>headers\<close> argument.
\<close>

lemma call_is_dispatch_without_headers:
  "\<exists>p m pl. call e cfg op tr = make_request e cfg p m pl None tr"
  by (cases op) (auto simp: get_def create_def update_def delete_def Let_def)

text \<open>
  What the body of \<open>_make_request\<close> does for a caller that passes a headers dict:
  it unwraps \<open>value\<close> of a body that is an object (a JSON array has no \<open>get\<close>),
  sends the static token as it is and without authenticating, and sends the payload of
  every method but \<open>get\<close>.
\<close>

lemma dispatcher_unwraps_value:
  assumes sent: "http_requests (snd (make_request e cfg p m pl (Some h) tr)) = http_requests tr @ [rq]"
      and answered: "requests_request e rq = Inr resp"
      and ok: "raise_for_status resp = None"
      and body: "json_body resp = Some (JDict kvs)"
  shows "fst (make_request e cfg p m pl (Some h) tr) = Inr (dict_get kvs ''value'' (JDict kvs))"
  by (simp add: result_of_sent_request [OF sent] answered ok body)

lemma dispatcher_non_object_body_raises:
  assumes sent: "http_requests (snd (make_request e cfg p m pl (Some h) tr)) = http_requests tr @ [rq]"
      and answered: "requests_request e rq = Inr resp"
      and ok: "raise_for_status resp = None"
      and body: "json_body resp = Some (JList js)"
  shows "fst (make_request e cfg p m pl (Some h) tr) = Inl AttributeError"
  by (simp add: result_of_sent_request [OF sent] answered ok body)

lemma dispatcher_static_token_header:
  assumes "truthy_flag (disable_token_refresh cfg)"
  shows "auth_calls (snd (make_request e cfg p m pl (Some h) tr)) = auth_calls tr
         \<and> (\<exists>rq. http_requests (snd (make_request e cfg p m pl (Some h) tr)) = http_requests tr @ [rq]
                \<and> rq_headers rq = dict_set h ''Authorization'' (access_token cfg))"
  by (simp add: static_trace [OF assms] auth_calls_append http_requests_append)

lemma dispatcher_sends_payload:
  assumes "m \<noteq> ''get''"
  shows "\<forall>rq \<in> set (http_requests (snd (make_request e cfg p m pl hdrs []))).
           rq_method rq = m \<and> rq_url rq = generate_base_url cfg p \<and> rq_json rq = pl"
  using sent_requests [of e cfg p m pl hdrs "[]"] assms by auto

section \<open>The claims\<close>

subsection \<open>C1: every public operation raises\<close>

text \<open>
  C1, as stated, at \<open>get("accounts")\<close> with refresh enabled and an authentication
  provider that raises: \<open>_generate_user_token\<close> runs before \<open>headers.update\<close>, so the
  call ends with the provider's exception, not with an \<open>AttributeError\<close>.
\<close>

theorem attribute_error_for_all_inputs_counterexample:
  "call env_auth_failing example_config_refresh (Get ''accounts'' None) []
     = (Inl (AuthError ''invalid credentials''),
        [MakeRequest ''accounts'' ''get'' None None,
         Authenticate (new_auth_client example_config_refresh)
           (Some ''user@example.com'') (Some ''pw'')])
   \<and> fst (call env_auth_failing example_config_refresh (Get ''accounts'' None) [])
     \<noteq> Inl AttributeError"
  by (simp add: get_def Let_def make_request_no_headers example_config_refresh_def
        env_auth_failing_def)

text \<open>
  C1, as amended. Every call of \<open>get\<close>, \<open>create\<close>, \<open>update\<close> or \<open>delete\<close> enters
  \<open>_make_request\<close> with \<open>headers = None\<close>, sends no HTTP request and ends in an
  exception, for all inputs. When token resolution returns (refresh disabled, or the
  authentication provider yields a token) that exception is the \<open>AttributeError\<close> of
  \<open>headers.update\<close>; when refresh is enabled and the provider raises, it is the
  provider's exception.
\<close>

theorem public_operation_raises_before_dispatch:
  "(\<exists>p m pl. dispatches (snd (call e cfg op tr)) = dispatches tr @ [MakeRequest p m pl None])
   \<and> http_requests (snd (call e cfg op tr)) = http_requests tr
   \<and> (\<exists>err. fst (call e cfg op tr) = Inl err)
   \<and> (truthy_flag (disable_token_refresh cfg)
        \<or> (\<exists>s. authenticate_email_password e (new_auth_client cfg) (email cfg) (password cfg) = Inr s)
      \<longrightarrow> fst (call e cfg op tr) = Inl AttributeError)
   \<and> (\<not> truthy_flag (disable_token_refresh cfg)
        \<and> authenticate_email_password e (new_auth_client cfg) (email cfg) (password cfg) = Inl x
      \<longrightarrow> fst (call e cfg op tr) = Inl x)"
proof -
  obtain p m pl where c: "call e cfg op tr = make_request e cfg p m pl None tr"
    using call_is_dispatch_without_headers by blast
  have "dispatches (snd (call e cfg op tr)) = dispatches tr @ [MakeRequest p m pl None]"
    by (simp add: c make_request_no_headers dispatches_append)
  moreover have "http_requests (snd (call e cfg op tr)) = http_requests tr"
    by (simp add: c make_request_no_headers http_requests_append)
  moreover have "\<exists>err. fst (call e cfg op tr) = Inl err"
    by (simp add: c make_request_no_headers split: sum.splits)
  moreover have "truthy_flag (disable_token_refresh cfg)
        \<or> (\<exists>s. authenticate_email_password e (new_auth_client cfg) (email cfg) (password cfg) = Inr s)
      \<longrightarrow> fst (call e cfg op tr) = Inl AttributeError"
    by (auto simp: c make_request_no_headers)
  moreover have "\<not> truthy_flag (disable_token_refresh cfg)
        \<and> authenticate_email_password e (new_auth_client cfg) (email cfg) (password cfg) = Inl x
      \<longrightarrow> fst (call e cfg op tr) = Inl x"
    by (simp add: c make_request_no_headers)
  ultimately show ?thesis by blast
qed

theorem public_operation_raises_before_dispatch_witness:
  "(truthy_flag (disable_token_refresh example_config_static)
    \<and> fst (call (env_answering resp_no_content) example_config_static
               (Get ''accounts'' (Some ''42'')) [])
        = Inl AttributeError
    \<and> http_requests (snd (call (env_answering resp_no_content) example_config_static
                             (Get ''accounts'' (Some ''42'')) [])) = [])
   \<and> (\<not> truthy_flag (disable_token_refresh example_config_refresh)
      \<and> authenticate_email_password env_auth_failing (new_auth_client example_config_refresh)
            (email example_config_refresh) (password example_config_refresh)
          = Inl (AuthError ''invalid credentials'')
      \<and> fst (call env_auth_failing example_config_refresh (Delete ''accounts'' ''42'') [])
          = Inl (AuthError ''invalid credentials'')
      \<and> http_requests (snd (call env_auth_failing example_config_refresh
                               (Delete ''accounts'' ''42'') [])) = [])"
proof -
  have h: "truthy_flag (disable_token_refresh example_config_static)"
    by (simp add: example_config_static_def)
  have static: "truthy_flag (disable_token_refresh example_config_static)
    \<and> fst (call (env_answering resp_no_content) example_config_static
               (Get ''accounts'' (Some ''42'')) [])
        = Inl AttributeError
    \<and> http_requests (snd (call (env_answering resp_no_content) example_config_static
                             (Get ''accounts'' (Some ''42'')) [])) = []"
    using h public_operation_raises_before_dispatch
            [of "env_answering resp_no_content" example_config_static
                "Get ''accounts'' (Some ''42'')" "[]"]
    by simp
  have r: "\<not> truthy_flag (disable_token_refresh example_config_refresh)"
    by (simp add: example_config_refresh_def)
  have a: "authenticate_email_password env_auth_failing (new_auth_client example_config_refresh)
            (email example_config_refresh) (password example_config_refresh)
          = Inl (AuthError ''invalid credentials'')"
    by (simp add: env_auth_failing_def)
  have failing: "fst (call env_auth_failing example_config_refresh (Delete ''accounts'' ''42'') [])
          = Inl (AuthError ''invalid credentials'')
      \<and> http_requests (snd (call env_auth_failing example_config_refresh
                               (Delete ''accounts'' ''42'') [])) = []"
    using r a public_operation_raises_before_dispatch
            [of env_auth_failing example_config_refresh "Delete ''accounts'' ''42''" "[]"
                "AuthError ''invalid credentials''"]
    by simp
  from static r a failing show ?thesis by blast
qed

subsection \<open>C2: a body that does not decode\<close>

text \<open>
  C2, as stated, at \<open>get("accounts")\<close> answered 204 with an empty body: the call
  raises \<open>AttributeError\<close>; and \<open>_make_request\<close> given an empty headers dict
  returns the string \<open>request successful\<close>, not the object
  \<open>{"value": "request successful"}\<close>.
\<close>

theorem placeholder_object_counterexample:
  "fst (call (env_answering resp_no_content) example_config_static (Get ''accounts'' None) [])
     = Inl AttributeError
   \<and> fst (make_request (env_answering resp_no_content) example_config_static
             ''accounts'' ''get'' None (Some []) [])
     = Inr (JStr ''request successful'')"
  by (simp add: get_def make_request_def example_config_static_def env_answering_def
        resp_no_content_def raise_for_status_def generate_base_url_def)

text \<open>
  C2, as amended. When \<open>_make_request\<close> is called with a headers dict and has sent
  its request, and the answer passes \<open>raise_for_status\<close> with a body that is empty
  or not JSON, the call returns the string \<open>request successful\<close>: the placeholder
  \<open>{"value": "request successful"}\<close> is substituted and then unwrapped like any
  other body. No decoding error is raised.
\<close>

theorem undecodable_body_yields_placeholder_value:
  assumes sent: "http_requests (snd (make_request e cfg p m pl (Some h) tr)) = http_requests tr @ [rq]"
      and answered: "requests_request e rq = Inr resp"
      and ok: "raise_for_status resp = None"
      and undecodable: "json_body resp = None"
  shows "fst (make_request e cfg p m pl (Some h) tr) = Inr (JStr ''request successful'')"
  by (simp add: result_of_sent_request [OF sent] answered ok undecodable)

theorem undecodable_body_yields_placeholder_value_witness:
  "fst (make_request (env_answering resp_no_content) example_config_refresh
          ''accounts(42)'' ''delete'' None (Some [(''Accept'', Some ''application/json'')]) [])
   = Inr (JStr ''request successful'')"
proof -
  have r: "\<not> truthy_flag (disable_token_refresh example_config_refresh)"
    by (simp add: example_config_refresh_def)
  have a: "authenticate_email_password (env_answering resp_no_content)
             (new_auth_client example_config_refresh) (email example_config_refresh)
             (password example_config_refresh) = Inr ''fresh''"
    by (simp add: env_answering_def)
  have sent: "http_requests (snd (make_request (env_answering resp_no_content) example_config_refresh
          ''accounts(42)'' ''delete'' None (Some [(''Accept'', Some ''application/json'')]) []))
      = http_requests [] @
        [\<lparr> rq_method = ''delete'',
           rq_url = generate_base_url example_config_refresh ''accounts(42)'',
           rq_json = None,
           rq_headers = [(''Accept'', Some ''application/json''), (''Authorization'', Some ''fresh'')] \<rparr>]"
    by (simp add: fresh_trace [OF r a])
  have answered: "requests_request (env_answering resp_no_content)
        \<lparr> rq_method = ''delete'',
           rq_url = generate_base_url example_config_refresh ''accounts(42)'',
           rq_json = None,
           rq_headers = [(''Accept'', Some ''application/json''), (''Authorization'', Some ''fresh'')] \<rparr>
      = Inr resp_no_content"
    by (simp add: env_answering_def)
  have ok: "raise_for_status resp_no_content = None"
    by (simp add: raise_for_status_def resp_no_content_def)
  have undecodable: "json_body resp_no_content = None"
    by (simp add: resp_no_content_def)
  show ?thesis
    by (rule undecodable_body_yields_placeholder_value [OF sent answered ok undecodable])
qed

subsection \<open>C3: unwrapping \<open>value\<close>\<close>

text \<open>
  C3 at \<open>get("accounts")\<close>, static token, answered 200 with
  \<open>{"value": [{"name": "Contoso"}]}\<close>: the call raises \<open>AttributeError\<close> on
  entry to \<open>_make_request\<close> and returns nothing.
\<close>

theorem value_body_call_raises:
  "call (env_answering resp_value) example_config_static (Get ''accounts'' None) []
     = (Inl AttributeError, [MakeRequest ''accounts'' ''get'' None None])"
  by (simp add: get_def Let_def make_request_no_headers example_config_static_def)

subsection \<open>C4: the path of \<open>get\<close>\<close>

text \<open>
  C4, as stated, at \<open>get("accounts", "")\<close>: the path handed to
  \<open>_make_request\<close> is \<open>accounts\<close>, not \<open>accounts()\<close>, and no GET is sent.
\<close>

theorem get_empty_id_counterexample:
  "dispatches (snd (get (env_answering resp_value) example_config_static ''accounts'' (Some '''') []))
     = [MakeRequest ''accounts'' ''get'' None None]
   \<and> http_requests (snd (get (env_answering resp_value) example_config_static
                            ''accounts'' (Some '''') [])) = []"
  by (simp add: get_def Let_def make_request_no_headers example_config_static_def)

text \<open>
  C4, as amended. For every resource \<open>r\<close> and every non-empty id \<open>i\<close>,
  \<open>get(r, i)\<close> enters \<open>_make_request\<close> with path \<open>r(i)\<close>, method
  \<open>get\<close> and no payload, and \<open>get(r, None)\<close> with path \<open>r\<close>; every request
  \<open>_make_request\<close> sends for method \<open>get\<close> is a GET to the URL of its path,
  with no body.
\<close>

theorem get_dispatches_resource_path:
  "(i \<noteq> [] \<longrightarrow>
      dispatches (snd (get e cfg r (Some i) tr)) =
        dispatches tr @ [MakeRequest (r @ ''('' @ i @ '')'') ''get'' None None])
   \<and> dispatches (snd (get e cfg r None tr)) = dispatches tr @ [MakeRequest r ''get'' None None]
   \<and> (\<forall>rq \<in> set (http_requests (snd (make_request e cfg p ''get'' pl hdrs []))).
         rq_method rq = ''get'' \<and> rq_url rq = generate_base_url cfg p \<and> rq_json rq = None)"
proof (intro conjI impI)
  assume "i \<noteq> []"
  then show "dispatches (snd (get e cfg r (Some i) tr)) =
        dispatches tr @ [MakeRequest (r @ ''('' @ i @ '')'') ''get'' None None]"
    by (simp add: get_def Let_def make_request_no_headers dispatches_append)
next
  show "dispatches (snd (get e cfg r None tr)) = dispatches tr @ [MakeRequest r ''get'' None None]"
    by (simp add: get_def Let_def make_request_no_headers dispatches_append)
next
  from sent_requests [of e cfg p "''get''" pl hdrs "[]"]
  show "\<forall>rq \<in> set (http_requests (snd (make_request e cfg p ''get'' pl hdrs []))).
         rq_method rq = ''get'' \<and> rq_url rq = generate_base_url cfg p \<and> rq_json rq = None"
    by auto
qed

theorem get_dispatches_resource_path_witness:
  "''42'' \<noteq> []
   \<and> dispatches (snd (get (env_answering resp_value) example_config_static ''accounts'' (Some ''42'') []))
       = [MakeRequest ''accounts(42)'' ''get'' None None]
   \<and> http_requests (snd (make_request (env_answering resp_value) example_config_static
                            ''accounts(42)'' ''get'' None (Some []) []))
       = [\<lparr> rq_method = ''get'',
            rq_url = ''https://org.crm.dynamics.com/api/data/v9.0/accounts(42)'',
            rq_json = None,
            rq_headers = [(''Authorization'', Some ''tok'')] \<rparr>]"
proof -
  have ne: "''42'' \<noteq> []" by simp
  have t: "truthy_flag (disable_token_refresh example_config_static)"
    by (simp add: example_config_static_def)
  have sent: "http_requests (snd (make_request (env_answering resp_value) example_config_static
                            ''accounts(42)'' ''get'' None (Some []) []))
       = [\<lparr> rq_method = ''get'',
            rq_url = generate_base_url example_config_static ''accounts(42)'',
            rq_json = None,
            rq_headers = [(''Authorization'', Some ''tok'')] \<rparr>]"
    by (simp add: static_trace [OF t]) (simp add: example_config_static_def)
  from ne sent get_dispatches_resource_path
         [of "''42''" "env_answering resp_value" example_config_static "''accounts''" "[]"
             "''accounts(42)''" None "Some []"]
  show ?thesis
    by (simp add: generate_base_url_def example_config_static_def)
qed

subsection \<open>C5: the static token\<close>

text \<open>
  C5 at \<open>delete("accounts", "42")\<close> with \<open>disable_token_refresh = True\<close> and
  token \<open>tok\<close>: the authentication provider is not called, and neither is the API;
  the call raises \<open>AttributeError\<close>.
\<close>

theorem static_token_call_raises:
  "call (env_answering resp_no_content) example_config_static (Delete ''accounts'' ''42'') []
     = (Inl AttributeError, [MakeRequest ''accounts(42)'' ''delete'' None None])"
  by (simp add: delete_def make_request_no_headers example_config_static_def)

subsection \<open>C6: one authentication per call\<close>

text \<open>
  C6. With \<open>disable_token_refresh\<close> false, every operation calls the authentication
  provider exactly once, on a client built from the configured client id, client secret and
  tenant id, with the configured email and password; a second call authenticates again
  (nothing is cached).
\<close>

theorem token_refresh_authenticates_once_per_call:
  assumes "\<not> truthy_flag (disable_token_refresh cfg)"
  shows "auth_calls (snd (call e cfg op tr)) =
           auth_calls tr @
           [Authenticate
              \<lparr> ac_client_id = client_id cfg, ac_client_secret = client_secret cfg,
                ac_tenant_id = tenant_id cfg,
                ac_scopes = [environment_url cfg @ ''user_impersonation''],
                ac_mode = ''b2c'',
                ac_authority = ''https://login.microsoftonline.com/organizations'' \<rparr>
              (email cfg) (password cfg)]
         \<and> length (auth_calls (snd (call e cfg op' (snd (call e cfg op tr))))) =
             length (auth_calls tr) + 2"
proof -
  have one: "auth_calls (snd (call e cfg x t)) =
      auth_calls t @ [Authenticate (new_auth_client cfg) (email cfg) (password cfg)]" for x t
  proof -
    obtain p m pl where c: "call e cfg x t = make_request e cfg p m pl None t"
      using call_is_dispatch_without_headers by blast
    show ?thesis using assms by (simp add: c make_request_no_headers auth_calls_append)
  qed
  show ?thesis by (simp add: one new_auth_client_def)
qed

theorem token_refresh_authenticates_once_per_call_witness:
  "\<not> truthy_flag (disable_token_refresh example_config_refresh)
   \<and> auth_calls (snd (call (env_answering resp_no_content) example_config_refresh
                         (Create ''accounts'' (JDict [(''name'', JStr ''Contoso'')])) [])) =
       [Authenticate
          \<lparr> ac_client_id = Some ''app'', ac_client_secret = Some ''secret'',
            ac_tenant_id = Some ''tenant'',
            ac_scopes = [''https://org.crm.dynamics.com/user_impersonation''],
            ac_mode = ''b2c'',
            ac_authority = ''https://login.microsoftonline.com/organizations'' \<rparr>
          (Some ''user@example.com'') (Some ''pw'')]"
proof -
  have h: "\<not> truthy_flag (disable_token_refresh example_config_refresh)"
    by (simp add: example_config_refresh_def)
  show ?thesis
    using h token_refresh_authenticates_once_per_call
            [OF h, of "env_answering resp_no_content"
               "Create ''accounts'' (JDict [(''name'', JStr ''Contoso'')])" "[]"]
    by (simp add: example_config_refresh_def)
qed

subsection \<open>C7: error statuses\<close>

text \<open>
  C7, as stated: \<open>_make_request\<close> given a headers dict and answered 304 returns
  normally; and \<open>get("accounts")\<close> answered 404 raises \<open>AttributeError\<close>, which
  carries no status, having sent no request.
\<close>

theorem non_2xx_status_counterexample:
  "fst (make_request (env_answering resp_not_modified) example_config_static
          ''accounts'' ''get'' None (Some []) [])
     = Inr (JStr ''request successful'')
   \<and> call (env_answering resp_not_found) example_config_static (Get ''accounts'' None) []
     = (Inl AttributeError, [MakeRequest ''accounts'' ''get'' None None])"
  by (simp add: get_def make_request_def example_config_static_def env_answering_def
        resp_not_modified_def raise_for_status_def generate_base_url_def)

text \<open>
  C7, as amended. When \<open>_make_request\<close> is called with a headers dict and the
  token is resolved, exactly one request is sent; if it is answered with a status from 400
  to 599 the call raises the \<open>HTTPError\<close> carrying that response, and with any other
  status it raises no \<open>HTTPError\<close>.
\<close>

theorem error_status_raises_after_one_request:
  assumes "truthy_flag (disable_token_refresh cfg)
           \<or> (\<exists>s. authenticate_email_password e (new_auth_client cfg) (email cfg) (password cfg) = Inr s)"
  shows "\<exists>rq. http_requests (snd (make_request e cfg p m pl (Some h) tr)) = http_requests tr @ [rq]
           \<and> (\<forall>resp. requests_request e rq = Inr resp \<longrightarrow>
                 (if 400 \<le> status_code resp \<and> status_code resp < 600
                  then fst (make_request e cfg p m pl (Some h) tr) = Inl (HTTPError resp)
                  else (\<forall>r. fst (make_request e cfg p m pl (Some h) tr) \<noteq> Inl (HTTPError r))))"
proof -
  from resolved_sends_one [OF assms] obtain rq where
    sent: "http_requests (snd (make_request e cfg p m pl (Some h) tr)) = http_requests tr @ [rq]"
    by blast
  have "\<forall>resp. requests_request e rq = Inr resp \<longrightarrow>
          (if 400 \<le> status_code resp \<and> status_code resp < 600
           then fst (make_request e cfg p m pl (Some h) tr) = Inl (HTTPError resp)
           else (\<forall>r. fst (make_request e cfg p m pl (Some h) tr) \<noteq> Inl (HTTPError r)))"
  proof (intro allI impI)
    fix resp assume a: "requests_request e rq = Inr resp"
    have u: "unwrap_value j \<noteq> Inl (HTTPError r)" for j r
      by (cases j) simp_all
    show "if 400 \<le> status_code resp \<and> status_code resp < 600
           then fst (make_request e cfg p m pl (Some h) tr) = Inl (HTTPError resp)
           else (\<forall>r. fst (make_request e cfg p m pl (Some h) tr) \<noteq> Inl (HTTPError r))"
      by (simp add: result_of_sent_request [OF sent] a raise_for_status_def u)
  qed
  with sent show ?thesis by blast
qed

theorem error_status_raises_after_one_request_witness:
  "length (http_requests (snd (make_request (env_answering resp_not_found) example_config_static
             ''accounts'' ''get'' None (Some []) []))) = 1
   \<and> fst (make_request (env_answering resp_not_found) example_config_static
             ''accounts'' ''get'' None (Some []) [])
       = Inl (HTTPError \<lparr> status_code = 404, json_body = None \<rparr>)"
proof -
  have h: "truthy_flag (disable_token_refresh example_config_static)
           \<or> (\<exists>s. authenticate_email_password (env_answering resp_not_found)
                     (new_auth_client example_config_static) (email example_config_static)
                     (password example_config_static) = Inr s)"
    by (simp add: example_config_static_def)
  from error_status_raises_after_one_request
         [OF h, of "''accounts''" "''get''" None "[]" "[]"]
  obtain rq where
    one: "http_requests (snd (make_request (env_answering resp_not_found) example_config_static
             ''accounts'' ''get'' None (Some []) [])) = http_requests [] @ [rq]"
    and r: "\<forall>resp. requests_request (env_answering resp_not_found) rq = Inr resp \<longrightarrow>
              (if 400 \<le> status_code resp \<and> status_code resp < 600
               then fst (make_request (env_answering resp_not_found) example_config_static
                      ''accounts'' ''get'' None (Some []) []) = Inl (HTTPError resp)
               else (\<forall>r. fst (make_request (env_answering resp_not_found) example_config_static
                      ''accounts'' ''get'' None (Some []) []) \<noteq> Inl (HTTPError r)))"
    by blast
  have "requests_request (env_answering resp_not_found) rq = Inr resp_not_found"
    by (simp add: env_answering_def)
  with r have "fst (make_request (env_answering resp_not_found) example_config_static
                      ''accounts'' ''get'' None (Some []) []) = Inl (HTTPError resp_not_found)"
    by (simp add: resp_not_found_def)
  with one show ?thesis by (simp add: resp_not_found_def)
qed

subsection \<open>C8: the request URL\<close>

text \<open>
  C8. The URL of a path \<open>p\<close> is the environment URL, then \<open>api/data/v9.0/\<close>, then
  \<open>p\<close>, with nothing inserted or normalised; every request \<open>_make_request\<close>
  sends for \<open>p\<close> goes to that URL.
\<close>

theorem request_url_is_plain_concatenation:
  "generate_base_url cfg p = environment_url cfg @ ''api/data/v9.0/'' @ p
   \<and> (\<forall>rq \<in> set (http_requests (snd (make_request e cfg p m pl hdrs []))).
         rq_url rq = environment_url cfg @ ''api/data/v9.0/'' @ p)"
proof
  show "generate_base_url cfg p = environment_url cfg @ ''api/data/v9.0/'' @ p"
    by (simp add: generate_base_url_def)
  from sent_requests [of e cfg p m pl hdrs "[]"]
  show "\<forall>rq \<in> set (http_requests (snd (make_request e cfg p m pl hdrs []))).
         rq_url rq = environment_url cfg @ ''api/data/v9.0/'' @ p"
    by (auto simp: generate_base_url_def)
qed

theorem request_url_is_plain_concatenation_witness:
  "http_requests (snd (make_request (env_answering resp_no_content)
       (example_config_static \<lparr> environment_url := ''https://org.crm.dynamics.com'' \<rparr>)
       ''accounts'' ''get'' None (Some []) [])) \<noteq> []
   \<and> rq_url (hd (http_requests (snd (make_request (env_answering resp_no_content)
       (example_config_static \<lparr> environment_url := ''https://org.crm.dynamics.com'' \<rparr>)
       ''accounts'' ''get'' None (Some []) []))))
     = ''https://org.crm.dynamics.comapi/data/v9.0/accounts''"
proof -
  have t: "truthy_flag (disable_token_refresh
             (example_config_static \<lparr> environment_url := ''https://org.crm.dynamics.com'' \<rparr>))"
    by (simp add: example_config_static_def)
  have ne: "http_requests (snd (make_request (env_answering resp_no_content)
       (example_config_static \<lparr> environment_url := ''https://org.crm.dynamics.com'' \<rparr>)
       ''accounts'' ''get'' None (Some []) [])) \<noteq> []"
    by (simp add: static_trace [OF t])
  then have "hd (http_requests (snd (make_request (env_answering resp_no_content)
       (example_config_static \<lparr> environment_url := ''https://org.crm.dynamics.com'' \<rparr>)
       ''accounts'' ''get'' None (Some []) [])))
     \<in> set (http_requests (snd (make_request (env_answering resp_no_content)
       (example_config_static \<lparr> environment_url := ''https://org.crm.dynamics.com'' \<rparr>)
       ''accounts'' ''get'' None (Some []) [])))"
    by (rule hd_in_set)
  with request_url_is_plain_concatenation
         [of "example_config_static \<lparr> environment_url := ''https://org.crm.dynamics.com'' \<rparr>"
             "''accounts''" "env_answering resp_no_content" "''get''" None "Some []"]
  have "rq_url (hd (http_requests (snd (make_request (env_answering resp_no_content)
       (example_config_static \<lparr> environment_url := ''https://org.crm.dynamics.com'' \<rparr>)
       ''accounts'' ''get'' None (Some []) []))))
     = environment_url (example_config_static \<lparr> environment_url := ''https://org.crm.dynamics.com'' \<rparr>)
       @ ''api/data/v9.0/'' @ ''accounts''"
    by blast
  with ne show ?thesis by simp
qed

subsection \<open>C9: \<open>create\<close>\<close>

text \<open>
  C9 at \<open>create("accounts", {"name": "Contoso"})\<close>: \<open>_make_request\<close> is
  entered with path \<open>accounts\<close>, method \<open>post\<close> and the payload, and raises
  \<open>AttributeError\<close>; no POST is sent.
\<close>

theorem create_call_raises:
  "call (env_answering resp_no_content) example_config_static
        (Create ''accounts'' (JDict [(''name'', JStr ''Contoso'')])) []
     = (Inl AttributeError,
        [MakeRequest ''accounts'' ''post'' (Some (JDict [(''name'', JStr ''Contoso'')])) None])"
  by (simp add: create_def make_request_no_headers example_config_static_def)

subsection \<open>C10: \<open>get\<close> with an empty id\<close>

text \<open>
  C10 at \<open>get("accounts", "")\<close>: the call does what \<open>get("accounts")\<close> does,
  entering \<open>_make_request\<close> with path \<open>accounts\<close>, and like it raises
  \<open>AttributeError\<close>; no GET is sent.
\<close>

theorem get_empty_id_call_raises:
  "call (env_answering resp_no_content) example_config_static (Get ''accounts'' (Some '''')) []
     = (Inl AttributeError, [MakeRequest ''accounts'' ''get'' None None])
   \<and> call (env_answering resp_no_content) example_config_static (Get ''accounts'' None) []
     = (Inl AttributeError, [MakeRequest ''accounts'' ''get'' None None])"
  by (simp add: get_def Let_def make_request_no_headers example_config_static_def)

end
